theory Spec2Isabelle
  imports Complex_Main
begin

section \<open>Errors and tensors\<close>

text \<open>
  The Python exceptions the modelled code can raise.  A call that raises is the
  value \<open>Inl e\<close>; a call that returns \<open>v\<close> is \<open>Inr v\<close>.
\<close>

datatype error =
    ValueError | TypeError | AttributeError | KeyError | IndexError
  | RuntimeError | ZeroDivisionError

text \<open>
  Tensor entries are real numbers.  A one-dimensional tensor is a list, a
  matrix is the list of its rows, a three-dimensional tensor the list of its
  matrices.  Arithmetic is exact, except in \<open>MixtureSet.forward\<close> and
  \<open>logsumexp\<close>, which take the rounding of the floating-point type as an
  argument.

  A leaf tensor of the automatic-differentiation library carries its values, the
  \<open>requires_grad\<close> flag and the gradient buffer \<open>grad\<close> (\<open>None\<close> until a backward
  pass has populated it).
\<close>

record tensor =
  data :: "real list"
  requires_grad :: bool
  grad :: "real list option"

text \<open>
  \<open>torch.autograd.backward(f(value))\<close> for a scalar computed from the leaf
  \<open>value\<close>: it fails on a leaf that does not require a gradient, and otherwise
  adds the gradient to the buffer of the leaf (creating the buffer when there
  is none).  The argument \<open>gradient\<close> is the gradient of \<open>f\<close>, supplied by the
  differentiation library.
\<close>

definition backward :: "(real list \<Rightarrow> real list) \<Rightarrow> tensor \<Rightarrow> error + tensor" where
  "backward gradient v =
     (if \<not> requires_grad v then Inl RuntimeError
      else Inr (v\<lparr>grad := Some (case grad v of
                                    None \<Rightarrow> gradient (data v)
                                  | Some g \<Rightarrow> map2 (+) g (gradient (data v)))\<rparr>))"

section \<open>expfamilyprior.py: the class ExpFamilyPrior\<close>

text \<open>
  The two instance attributes \<open>_expected_sufficient_statistics\<close> and
  \<open>_natural_hparams\<close>; \<open>None\<close> is Python's \<open>None\<close>, their value before the
  setter has run.  The first holds the gradient buffer of the second.
\<close>

record ExpFamilyPrior =
  priv_expected_sufficient_statistics :: "real list option"
  priv_natural_hparams :: "tensor option"

text \<open>The read-only properties: \<open>.data\<close> of \<open>None\<close> raises.\<close>

definition expected_sufficient_statistics :: "ExpFamilyPrior \<Rightarrow> error + real list" where
  "expected_sufficient_statistics self =
     (case priv_expected_sufficient_statistics self of
        None \<Rightarrow> Inl AttributeError
      | Some g \<Rightarrow> Inr g)"

definition natural_hparams :: "ExpFamilyPrior \<Rightarrow> error + real list" where
  "natural_hparams self =
     (case priv_natural_hparams self of
        None \<Rightarrow> Inl AttributeError
      | Some v \<Rightarrow> Inr (data v))"

text \<open>
  The setter of \<open>natural_hparams\<close>.  \<open>autograd f\<close> is the gradient of the scalar
  function \<open>f\<close> (the differentiation library), \<open>log_norm\<close> the abstract method
  of the subclass.  The result pairs the outcome for \<open>self\<close> with the tensor
  \<open>value\<close> as the call leaves it, since the setter works on \<open>value\<close> in place.

  When \<open>value.grad\<close> is populated, \<open>value.grad.zero_()\<close> zeroes the buffer and
  returns it, and the second pair of parentheses calls that tensor: a
  \<open>TypeError\<close>, raised before any attribute of \<open>self\<close> is assigned.
\<close>

definition natural_hparams_setter ::
  "((real list \<Rightarrow> real) \<Rightarrow> real list \<Rightarrow> real list) \<Rightarrow> (real list \<Rightarrow> real) \<Rightarrow>
   ExpFamilyPrior \<Rightarrow> tensor \<Rightarrow> (error + ExpFamilyPrior) \<times> tensor" where
  "natural_hparams_setter autograd log_norm self val =
     (case grad val of
        Some g \<Rightarrow> (Inl TypeError, val\<lparr>grad := Some (map (\<lambda>_. 0) g)\<rparr>)
      | None \<Rightarrow>
          (case backward (autograd log_norm) val of
             Inl e \<Rightarrow> (Inl e, val)
           | Inr val' \<Rightarrow>
               (Inr (self\<lparr>priv_expected_sufficient_statistics := grad val',
                          priv_natural_hparams := Some val'\<rparr>),
                val')))"

text \<open>\<open>ExpFamilyPrior.__init__\<close>: both attributes \<open>None\<close>, then the setter.\<close>

definition ExpFamilyPrior_init ::
  "((real list \<Rightarrow> real) \<Rightarrow> real list \<Rightarrow> real list) \<Rightarrow> (real list \<Rightarrow> real) \<Rightarrow>
   tensor \<Rightarrow> error + ExpFamilyPrior" where
  "ExpFamilyPrior_init autograd log_norm nh =
     fst (natural_hparams_setter autograd log_norm
            \<lparr>priv_expected_sufficient_statistics = None, priv_natural_hparams = None\<rparr> nh)"

subsection \<open>DirichletPrior\<close>

text \<open>\<open>lgamma\<close> is the log-gamma function of the tensor library.\<close>

definition DirichletPrior_log_norm :: "(real \<Rightarrow> real) \<Rightarrow> real list \<Rightarrow> real" where
  "DirichletPrior_log_norm lgamma nh =
     - lgamma (sum_list (map (\<lambda>x. x + 1) nh)) + sum_list (map (\<lambda>x. lgamma (x + 1)) nh)"

definition DirichletPrior_split_sufficient_statistics :: "real list \<Rightarrow> real list" where
  "DirichletPrior_split_sufficient_statistics s_stats = s_stats"

definition DirichletPrior_init ::
  "((real list \<Rightarrow> real) \<Rightarrow> real list \<Rightarrow> real list) \<Rightarrow> (real \<Rightarrow> real) \<Rightarrow>
   real list \<Rightarrow> error + ExpFamilyPrior" where
  "DirichletPrior_init autograd lgamma concentrations =
     ExpFamilyPrior_init autograd (DirichletPrior_log_norm lgamma)
       \<lparr>data = map (\<lambda>c. c - 1) concentrations, requires_grad = True, grad = None\<rparr>"

subsection \<open>Attribute lookup and kl_div\<close>

text \<open>
  The values an attribute of a prior can have: a scalar tensor, a vector, a
  method (named), or \<open>None\<close>.
\<close>

datatype pyobj = PyScalar real | PyTensor "real list" | PyMethod string | PyNone

text \<open>
  \<open>self.name\<close> on an instance of \<open>ExpFamilyPrior\<close> or of \<open>DirichletPrior\<close>:
  the two properties, the two methods of the contract, and the two instance
  attributes.  The class defines no other name (the names every Python
  object inherits, which begin with two underscores, are left out), so any
  other lookup raises \<open>AttributeError\<close>.
\<close>

definition getattr :: "ExpFamilyPrior \<Rightarrow> string \<Rightarrow> error + pyobj" where
  "getattr self name =
     (if name = ''expected_sufficient_statistics'' then
        (case expected_sufficient_statistics self of Inl e \<Rightarrow> Inl e | Inr g \<Rightarrow> Inr (PyTensor g))
      else if name = ''natural_hparams'' then
        (case natural_hparams self of Inl e \<Rightarrow> Inl e | Inr v \<Rightarrow> Inr (PyTensor v))
      else if name = ''log_norm'' \<or> name = ''split_sufficient_statistics'' then
        Inr (PyMethod name)
      else if name = ''_expected_sufficient_statistics'' then
        (case priv_expected_sufficient_statistics self of
           None \<Rightarrow> Inr PyNone | Some g \<Rightarrow> Inr (PyTensor g))
      else if name = ''_natural_hparams'' then
        (case priv_natural_hparams self of
           None \<Rightarrow> Inr PyNone | Some v \<Rightarrow> Inr (PyTensor (data v)))
      else Inl AttributeError)"

text \<open>\<open>ExpFamilyPrior.name\<close>, the lookup on the class itself.\<close>

definition class_getattr :: "string \<Rightarrow> error + pyobj" where
  "class_getattr name =
     (if name \<in> set [''__init__'', ''expected_sufficient_statistics'', ''natural_hparams'',
                      ''split_sufficient_statistics'', ''log_norm'']
      then Inr (PyMethod name) else Inl AttributeError)"

text \<open>\<open>a @ b\<close> for two vectors.\<close>

definition dot :: "real list \<Rightarrow> real list \<Rightarrow> real" where
  "dot a b = sum_list (map2 (*) a b)"

definition bregman_divergence ::
  "real \<Rightarrow> real \<Rightarrow> real list \<Rightarrow> real list \<Rightarrow> real list \<Rightarrow> real" where
  "bregman_divergence f_val1 f_val2 grad_f_val2 val1 val2 =
     f_val1 - f_val2 - dot grad_f_val2 (map2 (-) val1 val2)"

text \<open>
  \<open>kl_div(model1, model2)\<close>.  The five arguments of \<open>_bregman_divergence\<close>
  are evaluated from left to right; \<open>log_norm\<close> is read, not called, and the
  fourth and fifth read the attribute \<open>natural_params\<close>.  The arithmetic of
  \<open>_bregman_divergence\<close> is defined on numbers and vectors only.
\<close>

definition kl_div :: "ExpFamilyPrior \<Rightarrow> ExpFamilyPrior \<Rightarrow> error + real" where
  "kl_div model1 model2 =
     (case getattr model2 ''log_norm'' of Inl e \<Rightarrow> Inl e | Inr a1 \<Rightarrow>
     (case getattr model1 ''log_norm'' of Inl e \<Rightarrow> Inl e | Inr a2 \<Rightarrow>
     (case getattr model1 ''expected_sufficient_statistics'' of Inl e \<Rightarrow> Inl e | Inr a3 \<Rightarrow>
     (case getattr model2 ''natural_params'' of Inl e \<Rightarrow> Inl e | Inr a4 \<Rightarrow>
     (case getattr model1 ''natural_params'' of Inl e \<Rightarrow> Inl e | Inr a5 \<Rightarrow>
     (case (a1, a2, a3, a4, a5) of
        (PyScalar f_val1, PyScalar f_val2, PyTensor grad_f_val2, PyTensor val1, PyTensor val2) \<Rightarrow>
          Inr (bregman_divergence f_val1 f_val2 grad_f_val2 val1 val2)
      | _ \<Rightarrow> Inl TypeError))))))"

subsection \<open>Construction helpers\<close>

text \<open>
  A tensor whose number of axes is not fixed by its use: its shape and its
  entries in row-major order.  A matrix argument is a tensor of two axes.
\<close>

record tensor_nd =
  shape :: "nat list"
  entries :: "real list"

record matrix =
  nrows :: nat
  ncols :: nat
  elems :: "real list"

text \<open>
  Each helper builds the vector of natural parameters and ends there: the
  \<open>return\<close> statement that follows is commented out, so a call that does not
  raise returns \<open>None\<close> (written \<open>Inr None\<close>).
\<close>

definition NormalGammaPrior ::
  "real list \<Rightarrow> real list \<Rightarrow> real \<Rightarrow> error + ExpFamilyPrior option" where
  "NormalGammaPrior mean precision prior_counts =
     (let n_mean = mean;
          n_precision = map (\<lambda>_. prior_counts) n_mean;
          g_shapes = map (\<lambda>p. p * prior_counts) precision;
          g_rates = prior_counts;
          natural_params =
            \<lparr>data = map2 (\<lambda>p m. p * m\<^sup>2 + 2 * g_rates) n_precision n_mean
                    @ map2 (*) n_precision n_mean
                    @ n_precision
                    @ map (\<lambda>s. 2 * s - 1) g_shapes,
             requires_grad = True, grad = None\<rparr>
      in Inr None)"

text \<open>\<open>means\<close> has one row per component; entry \<open>(k, j)\<close> is \<open>elems ! (k * ncols + j)\<close>.\<close>

definition JointNormalGammaPrior ::
  "matrix \<Rightarrow> real list \<Rightarrow> real \<Rightarrow> error + ExpFamilyPrior option" where
  "JointNormalGammaPrior means prec prior_counts =
     (let dim = ncols means;
          ncomp = nrows means;
          natural_params =
            \<lparr>data = map (\<lambda>j. prior_counts *
                              sum_list (map (\<lambda>k. (elems means ! (k * dim + j))\<^sup>2) [0..<ncomp])
                            + 2 * prior_counts) [0..<dim]
                    @ map (\<lambda>m. prior_counts * m) (elems means)
                    @ replicate (ncomp * dim) prior_counts
                    @ map (\<lambda>p. 2 * p * prior_counts - 1) prec,
             requires_grad = True, grad = None\<rparr>
      in Inr None)"

text \<open>\<open>torch.ger(a, b)\<close>, the outer product, in row-major order.\<close>

definition ger :: "real list \<Rightarrow> real list \<Rightarrow> real list" where
  "ger a b = concat (map (\<lambda>x. map (\<lambda>y. x * y) b) a)"

text \<open>
  The sum of an \<open>r1 \<times> c1\<close> and an \<open>r2 \<times> c2\<close> matrix under the broadcasting rule
  of the tensor library: along each axis the sizes agree or one of them is 1,
  and an axis of size 1 is repeated.
\<close>

definition bdim :: "nat \<Rightarrow> nat \<Rightarrow> nat option" where
  "bdim a b = (if a = b then Some a else if a = 1 then Some b
               else if b = 1 then Some a else None)"

definition badd2 :: "matrix \<Rightarrow> matrix \<Rightarrow> error + matrix" where
  "badd2 a b =
     (case (bdim (nrows a) (nrows b), bdim (ncols a) (ncols b)) of
        (Some r, Some c) \<Rightarrow>
          Inr \<lparr>nrows = r, ncols = c,
               elems = concat (map (\<lambda>i. map (\<lambda>j.
                 elems a ! ((if nrows a = 1 then 0 else i) * ncols a
                            + (if ncols a = 1 then 0 else j))
                 + elems b ! ((if nrows b = 1 then 0 else i) * ncols b
                              + (if ncols b = 1 then 0 else j))) [0..<c]) [0..<r])\<rparr>
      | _ \<Rightarrow> Inl RuntimeError)"

text \<open>
  \<open>NormalWishartPrior\<close>: the test on \<open>cov\<close> is on the number of its axes
  only.  \<open>mean\<close> is a vector.
\<close>

definition NormalWishartPrior ::
  "real list \<Rightarrow> tensor_nd \<Rightarrow> real \<Rightarrow> error + ExpFamilyPrior option" where
  "NormalWishartPrior mean cov prior_counts =
     (if length (shape cov) \<noteq> 2 then Inl ValueError
      else
        let D = length mean;
            dof = prior_counts + real D;
            V = \<lparr>nrows = shape cov ! 0, ncols = shape cov ! 1,
                 elems = map (\<lambda>x. dof * x) (entries cov)\<rparr>
        in case badd2 \<lparr>nrows = D, ncols = D,
                       elems = map (\<lambda>x. prior_counts * x) (ger mean mean)\<rparr> V of
             Inl e \<Rightarrow> Inl e
           | Inr s \<Rightarrow>
               let natural_params =
                     \<lparr>data = elems s
                             @ map (\<lambda>m. prior_counts * m) mean
                             @ [prior_counts]
                             @ [dof - real D],
                      requires_grad = True, grad = None\<rparr>
               in Inr None)"

definition JointNormalWishartPrior ::
  "matrix \<Rightarrow> tensor_nd \<Rightarrow> real \<Rightarrow> error + ExpFamilyPrior option" where
  "JointNormalWishartPrior means cov prior_counts =
     (if length (shape cov) \<noteq> 2 then Inl ValueError
      else
        let D = ncols means;
            dof = prior_counts + real D;
            V = \<lparr>nrows = shape cov ! 0, ncols = shape cov ! 1,
                 elems = map (\<lambda>x. dof * x) (entries cov)\<rparr>;
            mmT = concat (map (\<lambda>i. map (\<lambda>j.
                    sum_list (map (\<lambda>k. elems means ! (k * D + j) * elems means ! (k * D + i))
                                  [0..<nrows means])) [0..<D]) [0..<D])
        in case badd2 \<lparr>nrows = D, ncols = D, elems = map (\<lambda>x. prior_counts * x) mmT\<rparr> V of
             Inl e \<Rightarrow> Inl e
           | Inr s \<Rightarrow>
               let natural_params =
                     \<lparr>data = elems s
                             @ map (\<lambda>m. prior_counts * m) (elems means)
                             @ replicate (nrows means) prior_counts
                             @ [dof - real D],
                      requires_grad = True, grad = None\<rparr>
               in Inr None)"

text \<open>
  \<open>prec @ x\<close> for a matrix and a vector, and for two matrices; the inner sizes
  must agree.
\<close>

definition matvec :: "matrix \<Rightarrow> real list \<Rightarrow> error + real list" where
  "matvec a x =
     (if ncols a \<noteq> length x then Inl RuntimeError
      else Inr (map (\<lambda>i. sum_list (map (\<lambda>j. elems a ! (i * ncols a + j) * x ! j)
                                       [0..<ncols a])) [0..<nrows a]))"

definition matmul :: "matrix \<Rightarrow> matrix \<Rightarrow> error + matrix" where
  "matmul a b =
     (if ncols a \<noteq> nrows b then Inl RuntimeError
      else Inr \<lparr>nrows = nrows a, ncols = ncols b,
                elems = concat (map (\<lambda>i. map (\<lambda>j.
                  sum_list (map (\<lambda>k. elems a ! (i * ncols a + k) * elems b ! (k * ncols b + j))
                                [0..<ncols a])) [0..<ncols b]) [0..<nrows a])\<rparr>)"

text \<open>
  \<open>torch_inverse\<close> is \<open>torch.inverse\<close>, the matrix inversion of the tensor library,
  which raises on an argument it cannot invert.
\<close>

definition NormalFullCovariancePrior ::
  "(matrix \<Rightarrow> error + matrix) \<Rightarrow> real list \<Rightarrow> matrix \<Rightarrow> error + ExpFamilyPrior option" where
  "NormalFullCovariancePrior torch_inverse mean cov =
     (case torch_inverse cov of
        Inl e \<Rightarrow> Inl e
      | Inr prec \<Rightarrow>
          (case matvec prec mean of
             Inl e \<Rightarrow> Inl e
           | Inr pm \<Rightarrow>
               let natural_params =
                     \<lparr>data = map (\<lambda>x. - (1/2) * x) (elems prec) @ pm,
                      requires_grad = True, grad = None\<rparr>
               in Inr None))"

text \<open>
  The product of two vectors under the broadcasting rule (\<open>variance\<close> has one
  entry where \<open>mean\<close> has \<open>D\<close>).
\<close>

definition bmul1 :: "real list \<Rightarrow> real list \<Rightarrow> error + real list" where
  "bmul1 a b =
     (if length a = length b then Inr (map2 (*) a b)
      else if length a = 1 then Inr (map (\<lambda>y. hd a * y) b)
      else if length b = 1 then Inr (map (\<lambda>x. x * hd b) a)
      else Inl RuntimeError)"

definition NormalIsotropicCovariancePrior ::
  "real list \<Rightarrow> real list \<Rightarrow> error + ExpFamilyPrior option" where
  "NormalIsotropicCovariancePrior mean variance =
     (let prec = map (\<lambda>v. 1 / v) variance
      in case bmul1 prec mean of
           Inl e \<Rightarrow> Inl e
         | Inr pm \<Rightarrow>
             let natural_params =
                   \<lparr>data = map (\<lambda>p. - (1/2) * p) prec @ pm,
                    requires_grad = True, grad = None\<rparr>
             in Inr None)"

definition MatrixNormalPrior ::
  "(matrix \<Rightarrow> error + matrix) \<Rightarrow> matrix \<Rightarrow> matrix \<Rightarrow> error + ExpFamilyPrior option" where
  "MatrixNormalPrior torch_inverse mean cov =
     (case torch_inverse cov of
        Inl e \<Rightarrow> Inl e
      | Inr prec \<Rightarrow>
          (case matmul prec mean of
             Inl e \<Rightarrow> Inl e
           | Inr pm \<Rightarrow>
               let natural_params =
                     \<lparr>data = map (\<lambda>x. - (1/2) * x) (elems prec) @ elems pm,
                      requires_grad = True, grad = None\<rparr>
               in Inr None))"

text \<open>\<open>shape\<close> and \<open>rate\<close> are tensors of one entry each.\<close>

definition GammaPrior :: "real list \<Rightarrow> real list \<Rightarrow> error + ExpFamilyPrior option" where
  "GammaPrior shp rate =
     (let natural_params =
            \<lparr>data = map (\<lambda>s. s - 1) shp @ map (\<lambda>r. - r) rate,
             requires_grad = True, grad = None\<rparr>
      in Inr None)"

subsection \<open>Splitting the natural parameters\<close>

text \<open>
  \<open>int(.5 * (-b + math.sqrt(b ** 2 + 4 * n)))\<close>: the dimension recovered from
  the length of a flat vector.
\<close>

definition solve_dim :: "nat \<Rightarrow> nat \<Rightarrow> nat" where
  "solve_dim b n = nat \<lfloor>(1/2) * (- real b + sqrt (real (b\<^sup>2) + 4 * real n))\<rfloor>"

text \<open>\<open>t.view(r, c)\<close> of a vector: its rows, when it has \<open>r * c\<close> entries.\<close>

definition view2 :: "nat \<Rightarrow> nat \<Rightarrow> real list \<Rightarrow> error + real list list" where
  "view2 r c xs =
     (if length xs = r * c then Inr (map (\<lambda>i. take c (drop (i * c) xs)) [0..<r])
      else Inl RuntimeError)"

definition normal_fc_split_nparams ::
  "real list \<Rightarrow> error + (real list list \<times> real list \<times> nat)" where
  "normal_fc_split_nparams natural_params =
     (let dim = solve_dim 1 (length natural_params)
      in case view2 dim dim (take (dim\<^sup>2) natural_params) of
           Inl e \<Rightarrow> Inl e
         | Inr np1 \<Rightarrow> Inr (np1, drop (dim\<^sup>2) natural_params, dim))"

text \<open>
  \<open>natural_params[:-2]\<close> has \<open>length - 2\<close> entries (none for a shorter
  vector); unpacking \<open>natural_params[-2:]\<close> into two names needs two entries.
\<close>

definition normalwishart_split_nparams ::
  "real list \<Rightarrow> error + (real list list \<times> real list \<times> real \<times> real \<times> nat)" where
  "normalwishart_split_nparams natural_params =
     (let n = length natural_params;
          dim = solve_dim 1 (n - 2)
      in case view2 dim dim (take (dim\<^sup>2) natural_params) of
           Inl e \<Rightarrow> Inl e
         | Inr np1 \<Rightarrow>
             if n < 2 then Inl ValueError
             else Inr (np1, drop (dim\<^sup>2) (take (n - 2) natural_params),
                       natural_params ! (n - 2), natural_params ! (n - 1), dim))"

text \<open>\<open>len(natural_params) // (2 + 2 * ncomp)\<close>, then four slices.\<close>

definition jointnormalgamma_split_nparams ::
  "real list \<Rightarrow> nat \<Rightarrow> error + (real list \<times> real list list \<times> real list list \<times> real list \<times> nat)" where
  "jointnormalgamma_split_nparams natural_params ncomp =
     (let dim = length natural_params div (2 + 2 * ncomp);
          np1 = take dim natural_params;
          np2s = take (dim * ncomp) (drop dim natural_params);
          np3s = take (dim * ncomp) (drop (dim + dim * ncomp) natural_params);
          np4 = drop (dim + 2 * dim * ncomp) natural_params
      in case view2 ncomp dim np2s of
           Inl e \<Rightarrow> Inl e
         | Inr v2 \<Rightarrow>
             (case view2 ncomp dim np3s of
                Inl e \<Rightarrow> Inl e
              | Inr v3 \<Rightarrow> Inr (np1, v2, v3, np4, dim)))"

text \<open>
  The joint Normal-Wishart layout: the last \<open>ncomp + 1\<close> entries are the
  \<open>ncomp\<close> scalars and the final scalar; the last entry of an empty vector
  does not exist.
\<close>

definition jointnormalwishart_split_nparams ::
  "real list \<Rightarrow> nat \<Rightarrow>
   error + (real list list \<times> real list list \<times> real list \<times> real \<times> nat)" where
  "jointnormalwishart_split_nparams natural_params ncomp =
     (let n = length natural_params;
          dim = solve_dim ncomp (n - (ncomp + 1))
      in case view2 dim dim (take (dim\<^sup>2) natural_params) of
           Inl e \<Rightarrow> Inl e
         | Inr np1 \<Rightarrow>
             (case view2 ncomp dim (drop (dim\<^sup>2) (take (n - (ncomp + 1)) natural_params)) of
                Inl e \<Rightarrow> Inl e
              | Inr np2s \<Rightarrow>
                  if n = 0 then Inl IndexError
                  else Inr (np1, np2s,
                            drop (n - (ncomp + 1)) (take (n - 1) natural_params),
                            natural_params ! (n - 1), dim)))"

text \<open>
  The isotropic family: the two groups are taken, and the \<open>return\<close>
  statement is commented out, so the function returns \<open>None\<close>.
\<close>

definition normal_iso_split_nparams :: "real list \<Rightarrow> error + (real \<times> real list) option" where
  "normal_iso_split_nparams natural_params =
     (case natural_params of
        [] \<Rightarrow> Inl IndexError
      | np1 # np2 \<Rightarrow> Inr None)"

text \<open>
  Its caller unpacks the result into two names, which raises \<open>TypeError\<close> on
  \<open>None\<close>.  Its own \<open>return\<close> statement is commented out as well.
\<close>

definition normal_iso_log_norm :: "real list \<Rightarrow> error + real option" where
  "normal_iso_log_norm natural_params =
     (case normal_iso_split_nparams natural_params of
        Inl e \<Rightarrow> Inl e
      | Inr None \<Rightarrow> Inl TypeError
      | Inr (Some (np1, np2)) \<Rightarrow>
          let inv_np1 = 1 / np1;
              logdet = real (length np2) * ln (- 2 * np1)
          in Inr None)"

text \<open>The matrix-normal family: two views, and again no \<open>return\<close>.\<close>

definition matrixnormal_fc_split_nparams ::
  "real list \<Rightarrow> nat \<Rightarrow> nat \<Rightarrow> error + (real list list \<times> real list list) option" where
  "matrixnormal_fc_split_nparams natural_params dim1 dim2 =
     (case view2 dim1 dim1 (take (dim1\<^sup>2) natural_params) of
        Inl e \<Rightarrow> Inl e
      | Inr np1 \<Rightarrow>
          (case view2 dim1 dim2 (drop (dim1\<^sup>2) natural_params) of
             Inl e \<Rightarrow> Inl e
           | Inr np2 \<Rightarrow> Inr None))"

section \<open>models/parameters.py: BayesianParameter\<close>

text \<open>
  A parameter is a dictionary key by object identity (\<open>__hash__\<close> is the hash of
  the default \<open>repr\<close>, and \<open>__eq__\<close> is not overridden); \<open>ident\<close> is that
  identity.
\<close>

record BayesianParameter =
  ident :: nat
  prior :: ExpFamilyPrior
  posterior :: ExpFamilyPrior
  natural_grad :: "real list"

definition BayesianParameter_init ::
  "nat \<Rightarrow> ExpFamilyPrior \<Rightarrow> ExpFamilyPrior \<Rightarrow> error + BayesianParameter" where
  "BayesianParameter_init oid pri post =
     (case natural_hparams pri of
        Inl e \<Rightarrow> Inl e
      | Inr nh \<Rightarrow> Inr \<lparr>ident = oid, prior = pri, posterior = post,
                       natural_grad = map (\<lambda>_. 0) nh\<rparr>)"

text \<open>\<open>expected_value\<close> with its default \<open>concatenated=True\<close>.\<close>

definition expected_value :: "BayesianParameter \<Rightarrow> error + real list" where
  "expected_value p = expected_sufficient_statistics (posterior p)"

text \<open>
  \<open>BayesianParameter.kl_div\<close> looks \<open>kl_div\<close> up on the class
  \<open>ExpFamilyPrior\<close>, where the module-level function of that name is not
  defined.
\<close>

definition BayesianParameter_kl_div :: "BayesianParameter \<Rightarrow> error + real" where
  "BayesianParameter_kl_div p =
     (case class_getattr ''kl_div'' of
        Inl e \<Rightarrow> Inl e
      | Inr _ \<Rightarrow> kl_div (posterior p) (prior p))"

section \<open>utils.py\<close>



text \<open>\<open>t.sum()\<close> along an axis: the entries are added one after the other.\<close>

definition round_sum :: "(real \<Rightarrow> real) \<Rightarrow> real list \<Rightarrow> real" where
  "round_sum rnd xs = foldl (\<lambda>a x. rnd (a + x)) 0 xs"

text \<open>
  \<open>logsumexp\<close> along the last axis, for one row: the maximum is subtracted,
  the row exponentiated and summed, the logarithm taken and the maximum added
  back.  \<open>torch.max\<close> over an empty axis raises.
\<close>

definition logsumexp_row :: "(real \<Rightarrow> real) \<Rightarrow> real list \<Rightarrow> error + real" where
  "logsumexp_row rnd xs =
     (if xs = [] then Inl RuntimeError
      else let tmax = Max (set xs)
           in Inr (rnd (tmax + rnd (ln (round_sum rnd
                     (map (\<lambda>x. rnd (exp (rnd (x - tmax)))) xs))))))"

text \<open>The first error of a list of results, or all the values.\<close>

fun sequence_err :: "(error + 'a) list \<Rightarrow> error + 'a list" where
  "sequence_err [] = Inr []"
| "sequence_err (Inl e # rs) = Inl e"
| "sequence_err (Inr v # rs) =
     (case sequence_err rs of Inl e \<Rightarrow> Inl e | Inr vs \<Rightarrow> Inr (v # vs))"

text \<open>\<open>logsumexp(tensor, dim=-1)\<close> on a three-dimensional tensor.\<close>

definition logsumexp ::
  "(real \<Rightarrow> real) \<Rightarrow> real list list list \<Rightarrow> error + real list list" where
  "logsumexp rnd t = sequence_err (map (\<lambda>mat. sequence_err (map (logsumexp_row rnd) mat)) t)"

section \<open>models/mixtureset.py: MixtureSet\<close>

text \<open>
  The shared component set is a collaborator (\<open>BayesianModelSet\<close>): its pool of
  sub-models (\<open>len\<close>, indexing), its call on the statistics, which gives one
  row per sample and one column per sub-model, and its \<open>accumulate\<close>, which
  gives a dictionary from parameter identities to accumulated statistics.
\<close>

record 'm BayesianModelSet =
  ms_models :: "'m list"
  ms_forward :: "real list list \<Rightarrow> error + real list list"
  ms_accumulate ::
    "real list list \<Rightarrow> real list list option \<Rightarrow> error + (nat \<rightharpoonup> real list)"

record 'm MixtureSet =
  num_mix :: nat
  num_comp :: nat
  mix_weights :: "BayesianParameter list"
  modelset :: "'m BayesianModelSet"
  cache :: "string \<rightharpoonup> real list list list"

text \<open>
  \<open>MixtureSet.__init__\<close>.  The weight parameters are fresh objects: the
  \<open>i\<close>-th one gets the identity \<open>oid + i\<close>.  \<open>int(len(modelset) / num_mix)\<close>
  divides by zero for an empty list of priors.
\<close>

definition MixtureSet_init ::
  "nat \<Rightarrow> ExpFamilyPrior list \<Rightarrow> ExpFamilyPrior list \<Rightarrow> 'm BayesianModelSet \<Rightarrow>
   error + 'm MixtureSet" where
  "MixtureSet_init oid prior_weights posterior_weights mset =
     (let nmix = length prior_weights in
      if nmix = 0 then Inl ZeroDivisionError
      else
        case sequence_err (map (\<lambda>i.
               if i < length posterior_weights
               then BayesianParameter_init (oid + i) (prior_weights ! i) (posterior_weights ! i)
               else Inl IndexError) [0..<nmix]) of
          Inl e \<Rightarrow> Inl e
        | Inr ps \<Rightarrow> Inr \<lparr>num_mix = nmix,
                         num_comp = length (ms_models mset) div nmix,
                         mix_weights = ps,
                         modelset = mset,
                         cache = Map.empty\<rparr>)"

text \<open>
  Assigning a vector to a row of \<open>num_comp\<close> entries: the sizes agree, or the
  vector has one entry, which is repeated.
\<close>

definition assign_row :: "nat \<Rightarrow> real list \<Rightarrow> error + real list" where
  "assign_row n w =
     (if length w = n then Inr w
      else if length w = 1 then Inr (replicate n (hd w))
      else Inl RuntimeError)"

text \<open>
  \<open>log_weights\<close>: one row per mixture, the expected value of its weight
  parameter.  The result of the source has a leading axis of size 1, along
  which it is broadcast over the samples; the model returns the matrix.
\<close>

definition log_weights :: "'m MixtureSet \<Rightarrow> error + real list list" where
  "log_weights self =
     (case mix_weights self of
        [] \<Rightarrow> Inl IndexError
      | first # _ \<Rightarrow>
          (case expected_value first of
             Inl e \<Rightarrow> Inl e
           | Inr _ \<Rightarrow>
               sequence_err (map (\<lambda>i.
                 if i < length (mix_weights self)
                 then (case expected_value (mix_weights self ! i) of
                         Inl e \<Rightarrow> Inl e
                       | Inr w \<Rightarrow> assign_row (num_comp self) w)
                 else Inl IndexError) [0..<num_mix self])))"

text \<open>\<open>chunks n xs\<close>: the consecutive blocks of \<open>n\<close> entries of \<open>xs\<close>.\<close>

definition chunks :: "nat \<Rightarrow> 'a list \<Rightarrow> 'a list list" where
  "chunks n xs = map (\<lambda>i. take n (drop (i * n) xs)) [0..<length xs div n]"

text \<open>
  \<open>t.reshape(-1, m, c)\<close> of a matrix: the entries in row-major order, cut into
  blocks.  It fails when the number of entries is not a multiple of \<open>m * c\<close>,
  and when \<open>m * c = 0\<close> (the free axis cannot be inferred).
\<close>

definition reshape3 :: "nat \<Rightarrow> nat \<Rightarrow> real list list \<Rightarrow> error + real list list list" where
  "reshape3 m c t =
     (let flat = concat t in
      if m * c = 0 \<or> length flat mod (m * c) \<noteq> 0 then Inl RuntimeError
      else Inr (map (chunks c) (chunks (m * c) flat)))"

text \<open>
  \<open>_local_kl_divergence\<close>: the sum over the components of
  \<open>log_resps.exp() * (log_resps - log_weights)\<close>.
\<close>

definition local_kl_divergence ::
  "(real \<Rightarrow> real) \<Rightarrow> real list list \<Rightarrow> real list list list \<Rightarrow> real list list" where
  "local_kl_divergence rnd lw log_resps =
     map (\<lambda>mat. map2 (\<lambda>lr w. round_sum rnd
                                 (map2 (\<lambda>x y. rnd (rnd (exp x) * rnd (x - y))) lr w)) mat lw)
         log_resps"

text \<open>
  \<open>MixtureSet.forward\<close>: the value returned and the object with the
  responsibilities stored in its cache.
\<close>

definition forward ::
  "(real \<Rightarrow> real) \<Rightarrow> 'm MixtureSet \<Rightarrow> real list list \<Rightarrow>
   error + (real list list \<times> 'm MixtureSet)" where
  "forward rnd self s_stats =
     (case log_weights self of
        Inl e \<Rightarrow> Inl e
      | Inr lw \<Rightarrow>
     (case ms_forward (modelset self) s_stats of
        Inl e \<Rightarrow> Inl e
      | Inr pc \<Rightarrow>
     (case reshape3 (num_mix self) (num_comp self) pc of
        Inl e \<Rightarrow> Inl e
      | Inr pc_exp_llhs \<Rightarrow>
     (let w_pc_exp_llhs = map (\<lambda>mat. map2 (map2 (\<lambda>p l. rnd (p + l))) mat lw) pc_exp_llhs in
      case logsumexp rnd w_pc_exp_llhs of
        Inl e \<Rightarrow> Inl e
      | Inr log_norm \<Rightarrow>
     (let log_resps = map2 (map2 (\<lambda>row n. map (\<lambda>x. rnd (x - n)) row)) w_pc_exp_llhs log_norm;
          resps = map (map (map (\<lambda>x. rnd (exp x)))) log_resps;
          local_kl_div = local_kl_divergence rnd lw log_resps;
          exp_llh = map2 (map2 (\<lambda>p r. round_sum rnd (map2 (\<lambda>a b. rnd (a * b)) p r)))
                         pc_exp_llhs resps
      in Inr (map2 (map2 (\<lambda>a b. rnd (a - b))) exp_llh local_kl_div,
              self\<lparr>cache := (cache self)(''resps'' \<mapsto> resps)\<rparr>))))))"

text \<open>The shape tests of the model: a matrix of \<open>s\<close> rows of \<open>m\<close> entries, and a
  three-dimensional tensor of \<open>s\<close> such matrices.\<close>

definition shape2 :: "nat \<Rightarrow> nat \<Rightarrow> 'a list list \<Rightarrow> bool" where
  "shape2 s m t \<longleftrightarrow> length t = s \<and> list_all (\<lambda>row. length row = m) t"

definition shape3 :: "nat \<Rightarrow> nat \<Rightarrow> nat \<Rightarrow> 'a list list list \<Rightarrow> bool" where
  "shape3 s m c t \<longleftrightarrow> length t = s \<and> list_all (shape2 m c) t"

text \<open>\<open>dict(pairs)\<close>: a later pair replaces an earlier one with the same key.\<close>

definition dict_of :: "('k \<times> 'v) list \<Rightarrow> ('k \<rightharpoonup> 'v)" where
  "dict_of kvs = map_of (rev kvs)"

text \<open>
  \<open>MixtureSet.accumulate\<close>.  The cached responsibilities have the shape
  \<open>(batch, num_mix, num_comp)\<close> that \<open>forward\<close> gave them; the product with
  \<open>parent_msg[:, :, None]\<close> is modelled for a message of shape
  \<open>(batch, num_mix)\<close>, every other shape being an error of the model (the
  tensor library would repeat an axis of size 1).
  \<open>{**ret_val, **acc_stats}\<close> is \<open>ret_val ++ acc_stats\<close>.
\<close>

definition accumulate ::
  "'m MixtureSet \<Rightarrow> real list list \<Rightarrow> real list list option \<Rightarrow> error + (nat \<rightharpoonup> real list)" where
  "accumulate self s_stats parent_msg =
     (case parent_msg of
        None \<Rightarrow> Inl ValueError
      | Some pm \<Rightarrow>
     (case cache self ''resps'' of
        None \<Rightarrow> Inl KeyError
      | Some resps \<Rightarrow>
          if \<not> (shape3 (length resps) (num_mix self) (num_comp self) resps
                \<and> shape2 (length resps) (num_mix self) pm)
          then Inl RuntimeError
          else
            let joint_resps = map2 (map2 (\<lambda>r p. map (\<lambda>x. x * p) r)) resps pm;
                sum_joint_resps =
                  map (\<lambda>m. map (\<lambda>c. sum_list (map (\<lambda>mat. mat ! m ! c) joint_resps))
                              [0..<num_comp self]) [0..<num_mix self];
                ret_val = dict_of (zip (map ident (mix_weights self)) sum_joint_resps)
            in case ms_accumulate (modelset self) s_stats (Some (map concat joint_resps)) of
                 Inl e \<Rightarrow> Inl e
               | Inr acc_stats \<Rightarrow> Inr (ret_val ++ acc_stats)))"

text \<open>The view returned by indexing.\<close>

record 'm MixtureSetElement =
  weights :: "real list"
  elem_modelset :: "'m list"

text \<open>
  \<open>MixtureSet.__getitem__\<close> for a key that is not negative.  The weights of
  mixture \<open>key\<close> are divided by \<open>weights.sum()\<close>, the sum of the whole matrix.
\<close>

definition getitem :: "'m MixtureSet \<Rightarrow> nat \<Rightarrow> error + 'm MixtureSetElement" where
  "getitem self key =
     (case log_weights self of
        Inl e \<Rightarrow> Inl e
      | Inr lw \<Rightarrow>
          let ws = map (map exp) lw in
          case sequence_err (map (\<lambda>i.
                 if i < length (ms_models (modelset self))
                 then Inr (ms_models (modelset self) ! i) else Inl IndexError)
                 [key * num_comp self ..< (key + 1) * num_comp self]) of
            Inl e \<Rightarrow> Inl e
          | Inr mdlset \<Rightarrow>
              if key < length ws
              then Inr \<lparr>weights = map (\<lambda>x. x / sum_list (concat ws)) (ws ! key),
                        elem_modelset = mdlset\<rparr>
              else Inl IndexError)"

definition len :: "'m MixtureSet \<Rightarrow> nat" where
  "len self = num_mix self"

section \<open>models/vae.py: VAE\<close>

text \<open>
  The collaborators of the auto-encoder.  The encoder and the decoder map a
  matrix (one row per sample) to a pair of matrices, means and variances.
  The latent model gives, from the means and variances of the posterior and a
  number of samples, its expected natural parameters (one row per data point)
  and the statistics to accumulate later.
\<close>

record 's latent_model =
  lm_expected_natural_params ::
    "real list list \<Rightarrow> real list list \<Rightarrow> nat \<Rightarrow> error + (real list list \<times> 's)"

datatype 's cache_value = LatentStats 's | KLDivergence "real list"

record 's VAE =
  encoder :: "real list list \<Rightarrow> error + (real list list \<times> real list list)"
  decoder :: "real list list \<Rightarrow> error + (real list list \<times> real list list)"
  latent_model :: "'s latent_model"
  vae_cache :: "string \<rightharpoonup> 's cache_value"

text \<open>
  An operation on the entries of two matrices of the same shape.  (The
  tensor library would also repeat an axis of size 1; operands of different
  shapes are an error of the model.)
\<close>

definition ew2 ::
  "(real \<Rightarrow> real \<Rightarrow> real) \<Rightarrow> real list list \<Rightarrow> real list list \<Rightarrow> error + real list list" where
  "ew2 f a b =
     (if map length a = map length b then Inr (map2 (map2 f) a b) else Inl RuntimeError)"

text \<open>\<open>torch.cat([a, b, c, d], dim=-1)\<close> of four matrices with the same number of rows.\<close>

definition cat_last :: "real list list list \<Rightarrow> error + real list list" where
  "cat_last ts =
     (case ts of
        [] \<Rightarrow> Inl RuntimeError
      | t # _ \<Rightarrow>
          if list_all (\<lambda>u. length u = length t) ts
          then Inr (map (\<lambda>i. concat (map (\<lambda>u. u ! i) ts)) [0..<length t])
          else Inl RuntimeError)"

definition normal_diag_natural_params ::
  "real list list \<Rightarrow> real list list \<Rightarrow> error + real list list" where
  "normal_diag_natural_params mean var =
     (case ew2 (\<lambda>m v. m / v) mean var of Inl e \<Rightarrow> Inl e | Inr b \<Rightarrow>
     (case ew2 (\<lambda>m v. - (m\<^sup>2) / (2 * v)) mean var of Inl e \<Rightarrow> Inl e | Inr c \<Rightarrow>
        cat_last [map (map (\<lambda>v. - 1 / (2 * v))) var,
                  b, c,
                  map (map (\<lambda>v. - (1/2) * ln v)) var]))"

text \<open>
  \<open>_log_likelihood\<close> for one data point and one row of decoded means and
  variances, and for the whole batch of samples: \<open>data\<close> is repeated along
  the axis of the samples.
\<close>

definition log_likelihood_row :: "real list \<Rightarrow> real list \<Rightarrow> real list \<Rightarrow> real" where
  "log_likelihood_row x m v =
     sum_list (map2 (\<lambda>x (m, v). - ((1/2) * (x - m)\<^sup>2 / v) - (1/2) * ln v) x (zip m v))
     - (1/2) * real (length m) * ln (2 * pi)"

definition log_likelihood ::
  "real list list \<Rightarrow> real list list list \<Rightarrow> real list list list \<Rightarrow> error + real list list" where
  "log_likelihood dat means variances =
     (if list_all (\<lambda>t. map length t = map length dat) means
         \<and> map (map length) variances = map (map length) means
      then Inr (map2 (\<lambda>ms vs. map2 (\<lambda>x (m, v). log_likelihood_row x m v) dat (zip ms vs))
                     means variances)
      else Inl RuntimeError)"

text \<open>
  \<open>_estimate_prior\<close>: the latent model is asked for its expected natural
  parameters, and the statistics it returns go into the cache.
\<close>

definition estimate_prior ::
  "'s VAE \<Rightarrow> real list list \<Rightarrow> real list list \<Rightarrow> nat \<Rightarrow> error + (real list list \<times> 's VAE)" where
  "estimate_prior self means variances nsamples =
     (case lm_expected_natural_params (latent_model self) means variances nsamples of
        Inl e \<Rightarrow> Inl e
      | Inr (exp_np_params, s_stats) \<Rightarrow>
          Inr (exp_np_params,
               self\<lparr>vae_cache := (vae_cache self)(''latent_stats'' \<mapsto> LatentStats s_stats)\<rparr>))"

text \<open>
  The value \<open>_compute_local_kl_div\<close> stores: for each data point, the sum over
  the natural-parameter dimensions of
  \<open>(nparams - exp_np_params) * exp_s_stats\<close>.  \<open>ss_from_mean_var\<close> is
  \<open>NormalDiagonalCovariance.sufficient_statistics_from_mean_var\<close>.
\<close>

definition local_kl_div ::
  "(real list list \<Rightarrow> real list list \<Rightarrow> real list list) \<Rightarrow>
   real list list \<Rightarrow> real list list \<Rightarrow> real list list \<Rightarrow> error + real list" where
  "local_kl_div ss_from_mean_var means variances exp_np_params =
     (let exp_s_stats = ss_from_mean_var means variances in
      case normal_diag_natural_params means variances of Inl e \<Rightarrow> Inl e | Inr nparams \<Rightarrow>
     (case ew2 (-) nparams exp_np_params of Inl e \<Rightarrow> Inl e | Inr d \<Rightarrow>
     (case ew2 (*) d exp_s_stats of Inl e \<Rightarrow> Inl e | Inr terms \<Rightarrow>
        Inr (map sum_list terms))))"

definition compute_local_kl_div ::
  "(real list list \<Rightarrow> real list list \<Rightarrow> real list list) \<Rightarrow>
   's VAE \<Rightarrow> real list list \<Rightarrow> real list list \<Rightarrow> real list list \<Rightarrow> error + 's VAE" where
  "compute_local_kl_div ss_from_mean_var self means variances exp_np_params =
     (case local_kl_div ss_from_mean_var means variances exp_np_params of
        Inl e \<Rightarrow> Inl e
      | Inr kl \<Rightarrow>
          Inr (self\<lparr>vae_cache := (vae_cache self)(''kl_divergence'' \<mapsto> KLDivergence kl)\<rparr>))"

text \<open>
  \<open>_expected_llh\<close>.  \<open>sampler\<close> is \<open>sample_from_normals\<close>, with the draws it
  makes: \<open>nsamples\<close> matrices of one row per data point.  The two views need
  \<open>nsamples * len(data)\<close> rows; the mean is taken over the axis of the samples.
\<close>

definition expected_llh ::
  "(real list list \<Rightarrow> real list list \<Rightarrow> nat \<Rightarrow> real list list list) \<Rightarrow>
   's VAE \<Rightarrow> real list list \<Rightarrow> real list list \<Rightarrow> real list list \<Rightarrow> nat \<Rightarrow> error + real list" where
  "expected_llh sampler self dat means variances nsamples =
     (let len_data = length dat;
          samples = concat (sampler means variances nsamples)
      in if length samples \<noteq> nsamples * len_data then Inl RuntimeError
         else
           case decoder self samples of
             Inl e \<Rightarrow> Inl e
           | Inr (dec_means, dec_variances) \<Rightarrow>
               if length dec_means \<noteq> nsamples * len_data
                  \<or> length dec_variances \<noteq> nsamples * len_data
               then Inl RuntimeError
               else
                 case log_likelihood dat (map (\<lambda>k. take len_data (drop (k * len_data) dec_means))
                                               [0..<nsamples])
                                         (map (\<lambda>k. take len_data (drop (k * len_data) dec_variances))
                                               [0..<nsamples]) of
                   Inl e \<Rightarrow> Inl e
                 | Inr llh \<Rightarrow>
                     Inr (map (\<lambda>n. sum_list (map (\<lambda>row. row ! n) llh) / real nsamples)
                              [0..<len_data]))"

text \<open>
  \<open>VAE.forward\<close>: the value returned is that of \<open>_expected_llh\<close>; the two
  calls before it fill the cache.
\<close>

definition VAE_forward ::
  "(real list list \<Rightarrow> real list list \<Rightarrow> nat \<Rightarrow> real list list list) \<Rightarrow>
   (real list list \<Rightarrow> real list list \<Rightarrow> real list list) \<Rightarrow>
   's VAE \<Rightarrow> real list list \<Rightarrow> nat \<Rightarrow> error + (real list \<times> 's VAE)" where
  "VAE_forward sampler ss_from_mean_var self s_stats nsamples =
     (let dat = s_stats in
      case encoder self dat of
        Inl e \<Rightarrow> Inl e
      | Inr (means, variances) \<Rightarrow>
     (case estimate_prior self means variances nsamples of
        Inl e \<Rightarrow> Inl e
      | Inr (exp_np_params, self1) \<Rightarrow>
     (case compute_local_kl_div ss_from_mean_var self1 means variances exp_np_params of
        Inl e \<Rightarrow> Inl e
      | Inr self2 \<Rightarrow>
     (case expected_llh sampler self2 dat means variances nsamples of
        Inl e \<Rightarrow> Inl e
      | Inr llh \<Rightarrow> Inr (llh, self2)))))"

section \<open>Properties of the priors\<close>

lemma setter_consistent:
  assumes "grad val = None" and "requires_grad val"
  shows "\<exists>self' val'.
           natural_hparams_setter autograd log_norm self val = (Inr self', val')
           \<and> natural_hparams self' = Inr (data val)
           \<and> expected_sufficient_statistics self' = Inr (autograd log_norm (data val))"
  using assms
  by (simp add: natural_hparams_setter_def backward_def natural_hparams_def
      expected_sufficient_statistics_def)

text \<open>
  Claim C3, at an input where the code departs from it.  The claim: after
  every assignment to \<open>natural_hparams\<close> the expected sufficient statistics are
  the gradient of \<open>log_norm\<close> at the assigned value.  Assigning a tensor whose
  gradient buffer is populated (here the vector \<open>(0, 0)\<close> with buffer
  \<open>(1, 2)\<close>) raises \<open>TypeError\<close>: the prior is not updated, and the buffer of
  the tensor has been zeroed in place.
\<close>

theorem setter_fails_on_populated_grad_example:
  "natural_hparams_setter autograd log_norm self
     \<lparr>data = [0, 0], requires_grad = True, grad = Some [1, 2]\<rparr>
   = (Inl TypeError, \<lparr>data = [0, 0], requires_grad = True, grad = Some [0, 0]\<rparr>)"
  by (simp add: natural_hparams_setter_def)

text \<open>
  Claim C10.  Assigning to \<open>natural_hparams\<close> a tensor whose gradient buffer
  is already populated raises an error (\<open>TypeError\<close>, from calling the result
  of the in-place zero operation) instead of completing the update.
\<close>

theorem setter_raises_when_grad_populated:
  assumes "grad val \<noteq> None"
  shows "fst (natural_hparams_setter autograd log_norm self val) = Inl TypeError"
  using assms by (auto simp: natural_hparams_setter_def)

theorem setter_raises_when_grad_populated_witness:
  "grad \<lparr>data = [0, 0], requires_grad = True, grad = Some [1, 2]\<rparr> \<noteq> None
   \<and> fst (natural_hparams_setter (\<lambda>f x. x) (\<lambda>x. 0)
            \<lparr>priv_expected_sufficient_statistics = None, priv_natural_hparams = None\<rparr>
            \<lparr>data = [0, 0], requires_grad = True, grad = Some [1, 2]\<rparr>) = Inl TypeError"
  using setter_raises_when_grad_populated
          [of "\<lparr>data = [0, 0], requires_grad = True, grad = Some [1, 2]\<rparr>"
              "\<lambda>f x. x" "\<lambda>x. 0"
              "\<lparr>priv_expected_sufficient_statistics = None, priv_natural_hparams = None\<rparr>"]
  by simp

lemma bregman_divergence_self: "bregman_divergence f f g v v = 0"
proof -
  have "map2 (*) g (map2 (-) v v) = map (\<lambda>_. 0) (zip g (zip v v))"
    by (simp add: map_zip_map2 zip_same_conv_map)
  then show ?thesis
    by (simp add: bregman_divergence_def dot_def)
qed

text \<open>
  Claim C2, on the code.  The claim: \<open>kl_div\<close> of two priors of one family is
  the Bregman divergence of the log-normalizer, and 0 for a prior against
  itself.  Every call of \<open>kl_div\<close> raises \<open>AttributeError\<close> instead (the
  attribute \<open>natural_params\<close> does not exist), and so does every call of
  \<open>BayesianParameter.kl_div\<close> (the class has no attribute \<open>kl_div\<close>).
\<close>

theorem kl_div_raises_AttributeError:
  "kl_div model1 model2 = Inl AttributeError
   \<and> BayesianParameter_kl_div p = Inl AttributeError"
  by (simp add: kl_div_def getattr_def class_getattr_def BayesianParameter_kl_div_def
      expected_sufficient_statistics_def split: option.split)

text \<open>
  Claim C1, on the code.  The claim: every construction helper called with
  valid hyperparameters returns a prior.  No call of any of the eight helpers
  returns one: the call raises or returns \<open>None\<close>; on the inputs of the test
  suite, \<open>NormalGammaPrior(zeros(2), ones(2), 1.)\<close> and
  \<open>NormalWishartPrior(zeros(2), eye(2), 1.)\<close>, it returns \<open>None\<close>.
\<close>

theorem construction_helpers_return_no_prior:
  "NormalGammaPrior mean precision prior_counts = Inr None
   \<and> JointNormalGammaPrior means prec prior_counts = Inr None
   \<and> NormalWishartPrior mean cov prior_counts \<noteq> Inr (Some p1)
   \<and> JointNormalWishartPrior means cov prior_counts \<noteq> Inr (Some p2)
   \<and> NormalFullCovariancePrior torch_inverse mean covm \<noteq> Inr (Some p3)
   \<and> NormalIsotropicCovariancePrior mean variance \<noteq> Inr (Some p4)
   \<and> MatrixNormalPrior torch_inverse meanm covm \<noteq> Inr (Some p5)
   \<and> GammaPrior shp rate = Inr None
   \<and> NormalGammaPrior [0, 0] [1, 1] 1 = Inr None
   \<and> NormalWishartPrior [0, 0] \<lparr>shape = [2, 2], entries = [1, 0, 0, 1]\<rparr> 1 = Inr None"
  by (simp add: NormalGammaPrior_def JointNormalGammaPrior_def NormalWishartPrior_def
      JointNormalWishartPrior_def NormalFullCovariancePrior_def
      NormalIsotropicCovariancePrior_def MatrixNormalPrior_def GammaPrior_def
      badd2_def bdim_def Let_def split: sum.split prod.split option.split)

lemma DirichletPrior_split_roundtrip:
  "DirichletPrior_split_sufficient_statistics s_stats = s_stats"
  by (simp add: DirichletPrior_split_sufficient_statistics_def)

text \<open>
  Claim C9, on the code.  The claim: for every family, splitting the
  concatenation of the groups of its canonical layout gives the groups back.
  For the isotropic Normal family the layout is a scalar followed by a
  vector, and the split of \<open>np1 # np2\<close> returns \<open>None\<close>, not the pair
  \<open>(np1, np2)\<close>; its caller \<open>_normal_iso_log_norm\<close> then raises \<open>TypeError\<close>.
  The split of the matrix-normal family never returns its two groups either.
\<close>

theorem normal_iso_split_returns_None:
  "normal_iso_split_nparams (np1 # np2) = Inr None
   \<and> normal_iso_log_norm (np1 # np2) = Inl TypeError
   \<and> matrixnormal_fc_split_nparams natural_params dim1 dim2 \<noteq> Inr (Some groups)"
  by (simp add: normal_iso_split_nparams_def normal_iso_log_norm_def
      matrixnormal_fc_split_nparams_def split: sum.split)

section \<open>Properties of MixtureSet\<close>


lemma sequence_err_Inr: "sequence_err rs = Inr vs \<Longrightarrow> rs = map Inr vs"
proof (induction rs arbitrary: vs rule: sequence_err.induct)
  case 1
  then show ?case by simp
next
  case (2 e rs)
  then show ?case by simp
next
  case (3 v rs)
  then show ?case by (auto split: sum.splits)
qed

lemma sequence_err_map_Inr:
  assumes "sequence_err (map f xs) = Inr vs"
  shows "length vs = length xs" and "\<And>i. i < length xs \<Longrightarrow> f (xs ! i) = Inr (vs ! i)"
proof -
  have eq: "map f xs = map Inr vs" using assms by (rule sequence_err_Inr)
  from eq have "length (map f xs) = length (map Inr vs)" by simp
  then show len: "length vs = length xs" by simp
  fix i assume "i < length xs"
  with eq len show "f (xs ! i) = Inr (vs ! i)"
    by (metis length_map nth_map)
qed


lemma sum_list_divide_const:
  "sum_list (map (\<lambda>x. f x / c) xs) = sum_list (map f xs) / c" for c :: real
  by (induction xs) (simp_all add: add_divide_distrib)







lemma length_concat_uniform:
  "(\<And>r. r \<in> set xss \<Longrightarrow> length r = c) \<Longrightarrow> length (concat xss) = length xss * c"
  by (induction xss) simp_all

lemma nth_concat_uniform:
  assumes "\<And>r. r \<in> set xss \<Longrightarrow> length r = c" and "m < length xss" and "k < c"
  shows "concat xss ! (m * c + k) = xss ! m ! k"
  using assms
proof (induction xss arbitrary: m)
  case Nil
  then show ?case by simp
next
  case (Cons r xss)
  have lr: "length r = c" using Cons.prems(1) by simp
  show ?case
  proof (cases m)
    case 0
    with Cons.prems lr show ?thesis by (simp add: nth_append)
  next
    case (Suc j)
    with Cons.prems have j: "j < length xss" by simp
    have "concat xss ! (j * c + k) = xss ! j ! k"
      using Cons.prems(1) j Cons.prems(3) by (intro Cons.IH) simp_all
    with Suc lr show ?thesis by (simp add: nth_append)
  qed
qed

lemma dict_of_zip_nth:
  assumes "length ks = length vs" and "distinct ks" and "m < length ks"
  shows "dict_of (zip ks vs) (ks ! m) = Some (vs ! m)"
proof -
  let ?n = "length ks"
  have "rev (zip ks vs) = zip (rev ks) (rev vs)"
    using assms(1) by (simp add: zip_rev)
  moreover have "map_of (zip (rev ks) (rev vs)) (rev ks ! (?n - Suc m)) = Some (rev vs ! (?n - Suc m))"
    using assms by (intro map_of_zip_nth) simp_all
  moreover have "rev ks ! (?n - Suc m) = ks ! m" "rev vs ! (?n - Suc m) = vs ! m"
    using assms by (simp_all add: rev_nth)
  ultimately show ?thesis by (simp add: dict_of_def)
qed

lemma dom_dict_of_zip:
  "length ks = length vs \<Longrightarrow> dom (dict_of (zip ks vs)) = set ks"
proof -
  assume len: "length ks = length vs"
  have "dom (dict_of (zip ks vs)) = set (map fst (zip ks vs))"
    by (simp add: dict_of_def dom_map_of_conv_image_fst)
  with len show ?thesis by simp
qed

lemma sum_list_map_nth_sum:
  "sum_list (map f xs) = (\<Sum>i<length xs. f (xs ! i))" for f :: "'a \<Rightarrow> real"
proof -
  have "sum_list (map f xs) = (\<Sum>i = 0..<length (map f xs). map f xs ! i)"
    by (rule sum_list_sum_nth)
  also have "\<dots> = (\<Sum>i<length xs. f (xs ! i))"
    by (simp add: atLeast0LessThan)
  finally show ?thesis .
qed










subsection \<open>The responsibilities in binary32\<close>





















text \<open>
  Claim C6.  For a message \<open>parent_msg\<close> of shape \<open>(batch, num_mix)\<close> and
  cached responsibilities of shape \<open>(batch, num_mix, num_comp)\<close>, on an
  object whose \<open>num_mix\<close> weight parameters are distinct objects,
  \<open>MixtureSet.accumulate\<close> calls the \<open>accumulate\<close> of the component set with
  the joint responsibilities as a matrix of shape
  \<open>(batch, num_mix * num_comp)\<close>, whose entry \<open>(s, m * num_comp + c)\<close> is
  \<open>parent_msg[s, m] * resps[s, m, c]\<close>, and returns the dictionary of the
  weights merged with the dictionary of that call (or its error).  The
  dictionary of the weights has the weight parameters as its keys and maps
  the parameter of mixture \<open>m\<close> to the vector whose entry \<open>c\<close> is the sum
  over the samples \<open>s\<close> of \<open>parent_msg[s, m] * resps[s, m, c]\<close>.
\<close>

theorem accumulate_routes_joint_resps:
  assumes cached: "cache self ''resps'' = Some resps"
      and rshape: "shape3 batch (num_mix self) (num_comp self) resps"
      and pshape: "shape2 batch (num_mix self) pm"
      and mw: "length (mix_weights self) = num_mix self"
      and dist: "distinct (map ident (mix_weights self))"
  shows "\<exists>joint wmap.
           accumulate self s_stats (Some pm)
             = (case ms_accumulate (modelset self) s_stats (Some joint) of
                  Inl e \<Rightarrow> Inl e
                | Inr acc_stats \<Rightarrow> Inr (wmap ++ acc_stats))
         \<and> length joint = batch
         \<and> (\<forall>s<batch. length (joint ! s) = num_mix self * num_comp self
               \<and> (\<forall>m<num_mix self. \<forall>c<num_comp self.
                     joint ! s ! (m * num_comp self + c) = pm ! s ! m * resps ! s ! m ! c))
         \<and> dom wmap = ident ` set (mix_weights self)
         \<and> (\<forall>m<num_mix self. \<exists>v.
               wmap (ident (mix_weights self ! m)) = Some v
             \<and> length v = num_comp self
             \<and> (\<forall>c<num_comp self. v ! c = (\<Sum>s<batch. pm ! s ! m * resps ! s ! m ! c)))"
proof -
  let ?M = "num_mix self" and ?C = "num_comp self"
  define joint_resps where "joint_resps = map2 (map2 (\<lambda>r p. map (\<lambda>x. x * p) r)) resps pm"
  define sum_joint where
    "sum_joint = map (\<lambda>m. map (\<lambda>c. sum_list (map (\<lambda>mat. mat ! m ! c) joint_resps)) [0..<num_comp self]) [0..<num_mix self]"
  define wmap where "wmap = dict_of (zip (map ident (mix_weights self)) sum_joint)"
  have lr: "length resps = batch" and lp: "length pm = batch"
    using rshape pshape by (simp_all add: shape3_def shape2_def)
  have rs: "length (resps ! s) = ?M" if "s < batch" for s
    using rshape that by (simp add: shape3_def shape2_def list_all_length)
  have rsm: "length (resps ! s ! m) = ?C" if "s < batch" "m < ?M" for s m
    using rshape that by (simp add: shape3_def shape2_def list_all_length)
  have ps: "length (pm ! s) = ?M" if "s < batch" for s
    using pshape that by (simp add: shape2_def list_all_length)
  have lj: "length joint_resps = batch"
    by (simp add: joint_resps_def lr lp)
  have js: "length (joint_resps ! s) = ?M" if "s < batch" for s
    using that by (simp add: joint_resps_def lr lp rs ps)
  have jsm: "joint_resps ! s ! m = map (\<lambda>x. x * pm ! s ! m) (resps ! s ! m)"
    if "s < batch" "m < ?M" for s m
    using that by (simp add: joint_resps_def lr lp rs ps)
  have jrow: "length r = ?C" if "s < batch" "r \<in> set (joint_resps ! s)" for s r
  proof -
    from that(2) obtain m where "m < length (joint_resps ! s)" "r = joint_resps ! s ! m"
      by (auto simp: in_set_conv_nth)
    with that(1) show ?thesis by (simp add: js jsm rsm)
  qed
  have guard: "shape3 (length resps) ?M ?C resps \<and> shape2 (length resps) ?M pm"
    using rshape pshape lr by simp
  have eq: "accumulate self s_stats (Some pm)
      = (case ms_accumulate (modelset self) s_stats (Some (map concat joint_resps)) of
           Inl e \<Rightarrow> Inl e
         | Inr acc_stats \<Rightarrow> Inr (wmap ++ acc_stats))"
    unfolding wmap_def sum_joint_def joint_resps_def
    using guard by (simp add: accumulate_def cached Let_def)
  have c2: "length (map concat joint_resps) = batch" by (simp add: lj)
  have c3: "length (map concat joint_resps ! s) = ?M * ?C" if "s < batch" for s
  proof -
    have "length (concat (joint_resps ! s)) = length (joint_resps ! s) * ?C"
      using jrow [OF that] by (rule length_concat_uniform)
    with that show ?thesis by (simp add: lj js)
  qed
  have c4: "map concat joint_resps ! s ! (m * ?C + c) = pm ! s ! m * resps ! s ! m ! c"
    if "s < batch" "m < ?M" "c < ?C" for s m c
  proof -
    have "concat (joint_resps ! s) ! (m * ?C + c) = joint_resps ! s ! m ! c"
      using jrow [OF that(1)] that by (intro nth_concat_uniform) (simp_all add: js)
    with that show ?thesis by (simp add: lj jsm rsm)
  qed
  have lsums: "length sum_joint = ?M" by (simp add: sum_joint_def)
  have c5: "dom wmap = ident ` set (mix_weights self)"
    unfolding wmap_def using mw lsums by (simp add: dom_dict_of_zip)
  have c6: "wmap (ident (mix_weights self ! m)) = Some (sum_joint ! m)" if "m < ?M" for m
  proof -
    have "dict_of (zip (map ident (mix_weights self)) sum_joint) (map ident (mix_weights self) ! m)
          = Some (sum_joint ! m)"
      using mw lsums dist that by (intro dict_of_zip_nth) simp_all
    with that mw show ?thesis by (simp add: wmap_def)
  qed
  have c7: "length (sum_joint ! m) = ?C" if "m < ?M" for m
    using that by (simp add: sum_joint_def)
  have c8: "sum_joint ! m ! c = (\<Sum>s<batch. pm ! s ! m * resps ! s ! m ! c)"
    if "m < ?M" "c < ?C" for m c
  proof -
    have "sum_joint ! m ! c = sum_list (map (\<lambda>mat. mat ! m ! c) joint_resps)"
      using that by (simp add: sum_joint_def)
    also have "\<dots> = (\<Sum>s<batch. joint_resps ! s ! m ! c)"
      by (simp add: sum_list_map_nth_sum lj)
    also have "\<dots> = (\<Sum>s<batch. pm ! s ! m * resps ! s ! m ! c)"
      using that by (intro sum.cong) (simp_all add: jsm rsm)
    finally show ?thesis .
  qed
  show ?thesis
    using eq c2 c3 c4 c5 c6 c7 c8 by blast
qed


lemma BayesianParameter_init_ident:
  "BayesianParameter_init oid pri post = Inr p \<Longrightarrow> ident p = oid"
  by (auto simp: BayesianParameter_init_def split: sum.splits)

lemma MixtureSet_init_weights:
  assumes "MixtureSet_init oid prior_weights posterior_weights mset = Inr self"
  shows "length (mix_weights self) = num_mix self"
    and "map ident (mix_weights self) = map (\<lambda>i. oid + i) [0..<num_mix self]"
    and "distinct (map ident (mix_weights self))"
    and "num_mix self * num_comp self \<le> length (ms_models (modelset self))"
proof -
  let ?n = "length prior_weights"
  let ?f = "\<lambda>i. if i < length posterior_weights
               then BayesianParameter_init (oid + i) (prior_weights ! i) (posterior_weights ! i)
               else Inl IndexError"
  from assms obtain ps where seq: "sequence_err (map ?f [0..<?n]) = Inr ps"
    and self: "self = \<lparr>num_mix = ?n, num_comp = length (ms_models mset) div ?n,
                       mix_weights = ps, modelset = mset, cache = Map.empty\<rparr>"
    by (auto simp: MixtureSet_init_def Let_def split: if_splits sum.splits)
  have len: "length ps = ?n" using sequence_err_map_Inr(1) [OF seq] by simp
  then show "length (mix_weights self) = num_mix self" by (simp add: self)
  have idp: "ident (ps ! i) = oid + i" if "i < ?n" for i
  proof -
    have "?f ([0..<?n] ! i) = Inr (ps ! i)"
      using that by (intro sequence_err_map_Inr(2) [OF seq]) simp
    with that show ?thesis
      by (auto split: if_splits dest: BayesianParameter_init_ident)
  qed
  have "map ident ps = map (\<lambda>i. oid + i) [0..<?n]"
    using len idp by (intro nth_equalityI) simp_all
  then show ids: "map ident (mix_weights self) = map (\<lambda>i. oid + i) [0..<num_mix self]"
    by (simp add: self)
  show "distinct (map ident (mix_weights self))"
    unfolding ids by (simp add: distinct_map inj_on_def)
  show "num_mix self * num_comp self \<le> length (ms_models (modelset self))"
    by (simp add: self)
qed

lemma forward_changes_cache_only:
  assumes "forward rnd self s_stats = Inr (out, self')"
  shows "\<exists>c. self' = self\<lparr>cache := c\<rparr>"
  using assms by (auto simp: forward_def Let_def split: sum.splits)

lemma len_is_num_mix: "len self = num_mix self"
  by (simp add: len_def)

lemma getitem_modelset_slice:
  assumes "getitem self key = Inr el"
  shows "elem_modelset el
         = take (num_comp self) (drop (key * num_comp self) (ms_models (modelset self)))"
    and "length (elem_modelset el) = num_comp self"
proof -
  let ?pool = "ms_models (modelset self)" and ?a = "key * num_comp self"
  let ?f = "\<lambda>i. if i < length ?pool then Inr (?pool ! i) else Inl IndexError"
  from assms obtain mdl where seq: "sequence_err (map ?f [?a..<(key + 1) * num_comp self]) = Inr mdl"
    and el: "elem_modelset el = mdl"
    by (auto simp: getitem_def Let_def split: sum.splits if_splits)
  have len: "length mdl = num_comp self"
    using sequence_err_map_Inr(1) [OF seq] by simp
  have nth: "i < length ?pool \<and> mdl ! (i - ?a) = ?pool ! i"
    if "?a \<le> i" "i < ?a + num_comp self" for i
  proof -
    have "?f ([?a..<(key + 1) * num_comp self] ! (i - ?a)) = Inr (mdl ! (i - ?a))"
      using that by (intro sequence_err_map_Inr(2) [OF seq]) simp
    with that show ?thesis by (auto split: if_splits)
  qed
  have "mdl = take (num_comp self) (drop ?a ?pool)"
  proof (rule nth_equalityI)
    show "length mdl = length (take (num_comp self) (drop ?a ?pool))"
    proof (cases "num_comp self = 0")
      case True
      with len show ?thesis by simp
    next
      case False
      then have "?a + num_comp self - 1 < length ?pool"
        using nth [of "?a + num_comp self - 1"] by simp
      with len show ?thesis by simp
    qed
  next
    fix j assume "j < length mdl"
    with len have j: "j < num_comp self" by simp
    with nth [of "?a + j"] show "mdl ! j = take (num_comp self) (drop ?a ?pool) ! j"
      by simp
  qed
  with el len show "elem_modelset el
         = take (num_comp self) (drop (key * num_comp self) (ms_models (modelset self)))"
    and "length (elem_modelset el) = num_comp self"
    by simp_all
qed


lemma getitem_weights_sum:
  assumes "getitem self key = Inr el"
  shows "\<exists>lw. log_weights self = Inr lw \<and> key < length lw
            \<and> sum_list (weights el)
                = sum_list (map exp (lw ! key)) / sum_list (map exp (concat lw))"
proof -
  from assms obtain lw where lw: "log_weights self = Inr lw"
    and key: "key < length lw"
    and w: "weights el = map (\<lambda>x. x / sum_list (concat (map (map exp) lw)))
                             (map (map exp) lw ! key)"
    by (auto simp: getitem_def Let_def split: sum.splits if_splits)
  have "sum_list (weights el)
        = sum_list (map (map exp) lw ! key) / sum_list (concat (map (map exp) lw))"
    unfolding w using sum_list_divide_const [of "\<lambda>x. x"] by simp
  with lw key show ?thesis by (auto simp: map_concat)
qed

theorem accumulate_routes_joint_resps_witness:
  "(let self = \<lparr>num_mix = 1, num_comp = 2,
            mix_weights =
              [\<lparr>ident = 0,
                prior = \<lparr>priv_expected_sufficient_statistics = Some [0, 0],
                          priv_natural_hparams = None\<rparr>,
                posterior = \<lparr>priv_expected_sufficient_statistics = Some [0, 0],
                             priv_natural_hparams = None\<rparr>,
                natural_grad = [0, 0]\<rparr>],
            modelset = \<lparr>ms_models = [(), ()],
                         ms_forward = (\<lambda>s. Inr (map (\<lambda>_. [0, 0]) s)),
                         ms_accumulate = (\<lambda>s p. Inr Map.empty)\<rparr>,
            cache = [''resps'' \<mapsto> [[[1/2, 1/2]]]]\<rparr>;
        resps = [[[1/2, 1/2]]];
        pm = [[1]]
    in cache self ''resps'' = Some resps
       \<and> shape3 1 (num_mix self) (num_comp self) resps
       \<and> shape2 1 (num_mix self) pm
       \<and> length (mix_weights self) = num_mix self
       \<and> distinct (map ident (mix_weights self))
       \<and> (\<exists>joint wmap.
             accumulate self [[0]] (Some pm)
               = (case ms_accumulate (modelset self) [[0]] (Some joint) of
                    Inl e \<Rightarrow> Inl e
                  | Inr acc_stats \<Rightarrow> Inr (wmap ++ acc_stats))
           \<and> length joint = 1
           \<and> (\<forall>s<1. length (joint ! s) = num_mix self * num_comp self
                 \<and> (\<forall>m<num_mix self. \<forall>c<num_comp self.
                       joint ! s ! (m * num_comp self + c) = pm ! s ! m * resps ! s ! m ! c))
           \<and> dom wmap = ident ` set (mix_weights self)
           \<and> (\<forall>m<num_mix self. \<exists>v.
                 wmap (ident (mix_weights self ! m)) = Some v
               \<and> length v = num_comp self
               \<and> (\<forall>c<num_comp self. v ! c = (\<Sum>s<1. pm ! s ! m * resps ! s ! m ! c)))))"
proof -
  let ?self = "\<lparr>num_mix = 1, num_comp = 2,
            mix_weights =
              [\<lparr>ident = 0,
                prior = \<lparr>priv_expected_sufficient_statistics = Some [0, 0],
                          priv_natural_hparams = None\<rparr>,
                posterior = \<lparr>priv_expected_sufficient_statistics = Some [0, 0],
                             priv_natural_hparams = None\<rparr>,
                natural_grad = [0, 0]\<rparr>],
            modelset = \<lparr>ms_models = [(), ()],
                         ms_forward = (\<lambda>s. Inr (map (\<lambda>_. [0, 0]) s)),
                         ms_accumulate = (\<lambda>s p. Inr Map.empty)\<rparr>,
            cache = [''resps'' \<mapsto> [[[1/2, 1/2]]]]\<rparr>"
  have h1: "cache ?self ''resps'' = Some [[[1/2, 1/2]]]" by simp
  have h2: "shape3 1 (num_mix ?self) (num_comp ?self) [[[1/2, 1/2 :: real]]]"
    by (simp add: shape3_def shape2_def)
  have h3: "shape2 1 (num_mix ?self) [[1 :: real]]"
    by (simp add: shape2_def)
  have h4: "length (mix_weights ?self) = num_mix ?self" by simp
  have h5: "distinct (map ident (mix_weights ?self))" by simp
  show ?thesis
    unfolding Let_def
    using h1 h2 h3 h4 h5 accumulate_routes_joint_resps [OF h1 h2 h3 h4 h5, of "[[0]]"]
    by blast
qed


text \<open>
  Claim C8.  For every statistics batch, \<open>MixtureSet.accumulate\<close> called with
  \<open>parent_msg\<close> equal to \<open>None\<close> raises \<open>ValueError\<close>: the call fails and no
  accumulation mapping is produced, whatever the state of the object.
\<close>

theorem accumulate_without_parent_msg:
  "accumulate self s_stats None = Inl ValueError"
  by (simp add: accumulate_def)

text \<open>
  Claim C7, at an input where the code departs from it.  The claim:
  \<open>MixtureSet[k]\<close> returns \<open>num_comp\<close> sub-models and a weight vector that
  sums to 1.  For a set of two mixtures of one component each, with expected
  log-weights \<open>x\<close> and \<open>y\<close>, the view of mixture 0 holds its one sub-model, and
  its weight vector is \<open>exp x\<close> divided by the sum over both mixtures, which
  is less than 1.
\<close>

theorem getitem_weights_divided_by_total_example:
  "getitem \<lparr>num_mix = 2, num_comp = 1,
            mix_weights =
              [\<lparr>ident = 0, prior = pr,
                posterior = \<lparr>priv_expected_sufficient_statistics = Some [x],
                             priv_natural_hparams = nh\<rparr>,
                natural_grad = [0]\<rparr>,
               \<lparr>ident = 1, prior = pr,
                posterior = \<lparr>priv_expected_sufficient_statistics = Some [y],
                             priv_natural_hparams = nh\<rparr>,
                natural_grad = [0]\<rparr>],
            modelset = \<lparr>ms_models = [a, b], ms_forward = f, ms_accumulate = g\<rparr>,
            cache = c\<rparr> 0
   = Inr \<lparr>weights = [exp x / (exp x + exp y)], elem_modelset = [a]\<rparr>
   \<and> sum_list [exp x / (exp x + exp y)] < 1"
  by (simp add: getitem_def log_weights_def expected_value_def
      expected_sufficient_statistics_def assign_row_def add_pos_pos numeral_2_eq_2)

section \<open>Properties of the VAE\<close>

lemma expected_llh_cache_update:
  "expected_llh sampler (self\<lparr>vae_cache := c\<rparr>) dat means variances nsamples
   = expected_llh sampler self dat means variances nsamples"
  by (simp add: expected_llh_def Let_def)

text \<open>
  A run of \<open>forward\<close> on one data point with one sample: the encoder gives
  mean 1 and variance 1, the latent model the natural parameters of the
  standard Normal, the decoder mean 0 and variance 1, and the draw is the
  mean itself.
\<close>

lemma VAE_forward_example:
  "(let sampler = (\<lambda>m v n. replicate n m);
        ss = (\<lambda>m v. map2 (\<lambda>mr vr. map2 (\<lambda>a b. a\<^sup>2 + b) mr vr @ mr
                                      @ map (\<lambda>_. 1) mr @ map (\<lambda>_. 1) mr) m v);
        vae = \<lparr>encoder = (\<lambda>d. Inr (map (\<lambda>_. [1]) d, map (\<lambda>_. [1]) d)),
               decoder = (\<lambda>s. Inr (map (\<lambda>_. [0]) s, map (\<lambda>_. [1]) s)),
               latent_model =
                 \<lparr>lm_expected_natural_params =
                    (\<lambda>m v n. Inr (map (\<lambda>_. [- (1/2), 0, 0, 0]) m, ()))\<rparr>,
               vae_cache = Map.empty\<rparr>
    in VAE_forward sampler ss vae [[0]] 1
         = Inr ([- (1/2) * ln (2 * pi)],
                vae\<lparr>vae_cache := [''latent_stats'' \<mapsto> LatentStats (),
                                    ''kl_divergence'' \<mapsto> KLDivergence [1/2]]\<rparr>)
       \<and> expected_llh sampler vae [[0]] [[1]] [[1]] 1 = Inr [- (1/2) * ln (2 * pi)]
       \<and> local_kl_div ss [[1]] [[1]] [[- (1/2), 0, 0, 0]] = Inr [1/2])"
  by (simp add: Let_def VAE_forward_def estimate_prior_def compute_local_kl_div_def
      local_kl_div_def normal_diag_natural_params_def ew2_def cat_last_def expected_llh_def
      log_likelihood_def log_likelihood_row_def)

text \<open>
  Claim C4 as stated fails.  The claim: \<open>VAE.forward\<close> returns the expected
  log-likelihood minus the cached local KL divergence.  On the run above the
  expected log-likelihood is \<open>- ln (2 pi) / 2\<close> and the cached divergence is
  \<open>1/2\<close>; \<open>forward\<close> returns the former, not their difference.
\<close>

theorem VAE_forward_minus_kl_counterexample:
  "(let sampler = (\<lambda>m v n. replicate n m);
        ss = (\<lambda>m v. map2 (\<lambda>mr vr. map2 (\<lambda>a b. a\<^sup>2 + b) mr vr @ mr
                                      @ map (\<lambda>_. 1) mr @ map (\<lambda>_. 1) mr) m v);
        vae = \<lparr>encoder = (\<lambda>d. Inr (map (\<lambda>_. [1]) d, map (\<lambda>_. [1]) d)),
               decoder = (\<lambda>s. Inr (map (\<lambda>_. [0]) s, map (\<lambda>_. [1]) s)),
               latent_model =
                 \<lparr>lm_expected_natural_params =
                    (\<lambda>m v n. Inr (map (\<lambda>_. [- (1/2), 0, 0, 0]) m, ()))\<rparr>,
               vae_cache = Map.empty\<rparr>
    in VAE_forward sampler ss vae [[0]] 1
         = Inr ([- (1/2) * ln (2 * pi)],
                vae\<lparr>vae_cache := [''latent_stats'' \<mapsto> LatentStats (),
                                    ''kl_divergence'' \<mapsto> KLDivergence [1/2]]\<rparr>)
       \<and> expected_llh sampler vae [[0]] [[1]] [[1]] 1 = Inr [- (1/2) * ln (2 * pi)]
       \<and> [- (1/2) * ln (2 * pi)] \<noteq> map2 (-) [- (1/2) * ln (2 * pi)] [1/2])"
  using VAE_forward_example by (simp add: Let_def)

text \<open>
  Claim C4, amended.  Whenever \<open>VAE.forward\<close> returns, its value is, per
  sample, the Monte Carlo expected log-likelihood of the data under the
  decoder (\<open>_expected_llh\<close>).  The local KL divergence, the sum over the
  natural-parameter dimensions of (posterior natural parameters minus prior
  expected natural parameters) times the posterior expected sufficient
  statistics, is not subtracted: it is stored in the cache under
  \<open>kl_divergence\<close>, next to the statistics of the latent model.
\<close>

theorem VAE_forward_returns_expected_llh:
  assumes "VAE_forward sampler ss self s_stats nsamples = Inr (out, self')"
  shows "\<exists>means variances exp_np_params stats kl.
           encoder self s_stats = Inr (means, variances)
         \<and> lm_expected_natural_params (latent_model self) means variances nsamples
             = Inr (exp_np_params, stats)
         \<and> local_kl_div ss means variances exp_np_params = Inr kl
         \<and> expected_llh sampler self s_stats means variances nsamples = Inr out
         \<and> vae_cache self' ''kl_divergence'' = Some (KLDivergence kl)
         \<and> vae_cache self' ''latent_stats'' = Some (LatentStats stats)"
  using assms
  by (auto simp: VAE_forward_def estimate_prior_def compute_local_kl_div_def
      expected_llh_cache_update split: sum.splits prod.splits)

theorem VAE_forward_returns_expected_llh_witness:
  "(let sampler = (\<lambda>m v n. replicate n m);
        ss = (\<lambda>m v. map2 (\<lambda>mr vr. map2 (\<lambda>a b. a\<^sup>2 + b) mr vr @ mr
                                      @ map (\<lambda>_. 1) mr @ map (\<lambda>_. 1) mr) m v);
        vae = \<lparr>encoder = (\<lambda>d. Inr (map (\<lambda>_. [1]) d, map (\<lambda>_. [1]) d)),
               decoder = (\<lambda>s. Inr (map (\<lambda>_. [0]) s, map (\<lambda>_. [1]) s)),
               latent_model =
                 \<lparr>lm_expected_natural_params =
                    (\<lambda>m v n. Inr (map (\<lambda>_. [- (1/2), 0, 0, 0]) m, ()))\<rparr>,
               vae_cache = Map.empty\<rparr>;
        vae' = vae\<lparr>vae_cache := [''latent_stats'' \<mapsto> LatentStats (),
                                   ''kl_divergence'' \<mapsto> KLDivergence [1/2]]\<rparr>
    in VAE_forward sampler ss vae [[0]] 1 = Inr ([- (1/2) * ln (2 * pi)], vae')
       \<and> (\<exists>means variances exp_np_params stats kl.
             encoder vae [[0]] = Inr (means, variances)
           \<and> lm_expected_natural_params (latent_model vae) means variances 1
               = Inr (exp_np_params, stats)
           \<and> local_kl_div ss means variances exp_np_params = Inr kl
           \<and> expected_llh sampler vae [[0]] means variances 1 = Inr [- (1/2) * ln (2 * pi)]
           \<and> vae_cache vae' ''kl_divergence'' = Some (KLDivergence kl)
           \<and> vae_cache vae' ''latent_stats'' = Some (LatentStats stats)))"
proof -
  have run: "VAE_forward (\<lambda>m v n. replicate n m)
        (\<lambda>m v. map2 (\<lambda>mr vr. map2 (\<lambda>a b. a\<^sup>2 + b) mr vr @ mr
                                      @ map (\<lambda>_. 1) mr @ map (\<lambda>_. 1) mr) m v)
        \<lparr>encoder = (\<lambda>d. Inr (map (\<lambda>_. [1]) d, map (\<lambda>_. [1]) d)),
               decoder = (\<lambda>s. Inr (map (\<lambda>_. [0]) s, map (\<lambda>_. [1]) s)),
               latent_model =
                 \<lparr>lm_expected_natural_params =
                    (\<lambda>m v n. Inr (map (\<lambda>_. [- (1/2), 0, 0, 0]) m, ()))\<rparr>,
               vae_cache = Map.empty\<rparr> [[0]] 1
     = Inr ([- (1/2) * ln (2 * pi)],
            \<lparr>encoder = (\<lambda>d. Inr (map (\<lambda>_. [1]) d, map (\<lambda>_. [1]) d)),
               decoder = (\<lambda>s. Inr (map (\<lambda>_. [0]) s, map (\<lambda>_. [1]) s)),
               latent_model =
                 \<lparr>lm_expected_natural_params =
                    (\<lambda>m v n. Inr (map (\<lambda>_. [- (1/2), 0, 0, 0]) m, ()))\<rparr>,
               vae_cache = Map.empty\<rparr>
             \<lparr>vae_cache := [''latent_stats'' \<mapsto> LatentStats (),
                            ''kl_divergence'' \<mapsto> KLDivergence [1/2]]\<rparr>)"
    using VAE_forward_example by (simp add: Let_def)
  show ?thesis
    unfolding Let_def
    using run VAE_forward_returns_expected_llh [OF run] by blast
qed

section \<open>The splits that return their groups\<close>

text \<open>
  For the full-covariance Normal, the Normal-Wishart and the two joint
  families, splitting the concatenation of the groups of the canonical layout
  gives the groups back, with the dimension; a matrix group is the list of
  its rows.
\<close>

lemma solve_dim_exact: "solve_dim b (d\<^sup>2 + b * d) = d"
proof -
  have "real (b\<^sup>2) + 4 * real (d\<^sup>2 + b * d) = (2 * real d + real b)\<^sup>2"
    by (simp add: power2_eq_square algebra_simps)
  then have "sqrt (real (b\<^sup>2) + 4 * real (d\<^sup>2 + b * d)) = 2 * real d + real b"
    by (simp add: real_sqrt_unique)
  then show ?thesis by (simp add: solve_dim_def)
qed

lemma take_drop_concat_uniform:
  assumes "\<And>r. r \<in> set xss \<Longrightarrow> length r = c" and "i < length xss"
  shows "take c (drop (i * c) (concat xss)) = xss ! i"
  using assms
proof (induction xss arbitrary: i)
  case Nil
  then show ?case by simp
next
  case (Cons r xss)
  have lr: "length r = c" using Cons.prems(1) by simp
  show ?case
  proof (cases i)
    case 0
    with lr show ?thesis by simp
  next
    case (Suc j)
    with Cons.prems have "take c (drop (j * c) (concat xss)) = xss ! j"
      by (intro Cons.IH) simp_all
    with Suc lr show ?thesis by simp
  qed
qed

lemma view2_concat:
  assumes "length xss = r" and "\<And>row. row \<in> set xss \<Longrightarrow> length row = c"
  shows "view2 r c (concat xss) = Inr xss"
proof -
  have len: "length (concat xss) = r * c"
    using assms by (simp add: length_concat_uniform)
  have "map (\<lambda>i. take c (drop (i * c) (concat xss))) [0..<r] = xss"
    using assms by (intro nth_equalityI) (simp_all add: take_drop_concat_uniform)
  with len show ?thesis by (simp add: view2_def)
qed

lemma normal_fc_split_roundtrip:
  assumes "length np1 = d" and "\<And>row. row \<in> set np1 \<Longrightarrow> length row = d"
      and "length np2 = d"
  shows "normal_fc_split_nparams (concat np1 @ np2) = Inr (np1, np2, d)"
proof -
  let ?v = "concat np1 @ np2"
  have len: "length (concat np1) = d\<^sup>2"
    using assms by (simp add: length_concat_uniform power2_eq_square)
  have "length ?v = d\<^sup>2 + 1 * d" using len assms(3) by simp
  then have dim: "solve_dim 1 (length ?v) = d"
    by (simp only: solve_dim_exact)
  have tk: "take (d\<^sup>2) ?v = concat np1" and dr: "drop (d\<^sup>2) ?v = np2"
    using len by simp_all
  show ?thesis
    unfolding normal_fc_split_nparams_def Let_def dim tk dr
    by (simp add: view2_concat [OF assms(1,2)])
qed

lemma normalwishart_split_roundtrip:
  assumes "length np1 = d" and "\<And>row. row \<in> set np1 \<Longrightarrow> length row = d"
      and "length np2 = d"
  shows "normalwishart_split_nparams (concat np1 @ np2 @ [np3, np4])
         = Inr (np1, np2, np3, np4, d)"
proof -
  let ?v = "concat np1 @ np2 @ [np3, np4]"
  have len: "length (concat np1) = d\<^sup>2"
    using assms by (simp add: length_concat_uniform power2_eq_square)
  have n: "length ?v = d\<^sup>2 + d + 2" using len assms(3) by simp
  have "length ?v - 2 = d\<^sup>2 + 1 * d" using n by simp
  then have dim: "solve_dim 1 (length ?v - 2) = d"
    by (simp only: solve_dim_exact)
  have tk: "take (d\<^sup>2) ?v = concat np1"
    using len by simp
  have mid: "drop (d\<^sup>2) (take (length ?v - 2) ?v) = np2"
    using len assms(3) by (simp add: n)
  have l1: "?v ! (length ?v - 2) = np3" and l2: "?v ! (length ?v - 1) = np4"
    using len assms(3) by (simp_all add: n nth_append)
  have ge: "\<not> length ?v < 2" using n by simp
  show ?thesis
    unfolding normalwishart_split_nparams_def Let_def dim tk mid l1 l2
    using ge by (simp add: view2_concat [OF assms(1,2)])
qed

lemma jointnormalgamma_split_roundtrip:
  assumes "length np1 = d" and "length np4 = d"
      and "length np2s = k" and "\<And>row. row \<in> set np2s \<Longrightarrow> length row = d"
      and "length np3s = k" and "\<And>row. row \<in> set np3s \<Longrightarrow> length row = d"
  shows "jointnormalgamma_split_nparams (np1 @ concat np2s @ concat np3s @ np4) k
         = Inr (np1, np2s, np3s, np4, d)"
proof -
  let ?v = "np1 @ concat np2s @ concat np3s @ np4"
  have l2: "length (concat np2s) = d * k" and l3: "length (concat np3s) = d * k"
    using assms by (simp_all add: length_concat_uniform)
  have "length ?v = d * (2 + 2 * k)"
    using assms(1,2) l2 l3 by (simp add: algebra_simps)
  moreover have "d * (2 + 2 * k) div (2 + 2 * k) = d"
    by (rule nonzero_mult_div_cancel_right) simp
  ultimately have dim: "length ?v div (2 + 2 * k) = d"
    by (simp only:)
  have s1: "take d ?v = np1"
    and s2: "take (d * k) (drop d ?v) = concat np2s"
    and s3: "take (d * k) (drop (d + d * k) ?v) = concat np3s"
    and s4: "drop (d + 2 * d * k) ?v = np4"
    using assms(1,2) l2 l3 by simp_all
  show ?thesis
    unfolding jointnormalgamma_split_nparams_def Let_def dim s1 s2 s3 s4
    by (simp add: view2_concat [OF assms(3,4)] view2_concat [OF assms(5,6)])
qed

lemma jointnormalwishart_split_roundtrip:
  assumes "length np1 = d" and "\<And>row. row \<in> set np1 \<Longrightarrow> length row = d"
      and "length np2s = k" and "\<And>row. row \<in> set np2s \<Longrightarrow> length row = d"
      and "length np3s = k"
  shows "jointnormalwishart_split_nparams (concat np1 @ concat np2s @ np3s @ [np4]) k
         = Inr (np1, np2s, np3s, np4, d)"
proof -
  let ?v = "concat np1 @ concat np2s @ np3s @ [np4]"
  have l1: "length (concat np1) = d\<^sup>2"
    using assms by (simp add: length_concat_uniform power2_eq_square)
  have l2: "length (concat np2s) = k * d"
    using assms by (simp add: length_concat_uniform)
  have n: "length ?v = d\<^sup>2 + k * d + (k + 1)" using l1 l2 assms(5) by simp
  have "length ?v - (k + 1) = d\<^sup>2 + k * d" using n by simp
  then have dim: "solve_dim k (length ?v - (k + 1)) = d"
    by (simp only: solve_dim_exact)
  have tk: "take (d\<^sup>2) ?v = concat np1"
    using l1 by simp
  have mid: "drop (d\<^sup>2) (take (length ?v - (k + 1)) ?v) = concat np2s"
    using l1 l2 assms(5) by (simp add: n)
  have s3: "drop (length ?v - (k + 1)) (take (length ?v - 1) ?v) = np3s"
    using l1 l2 assms(5) by (simp add: n)
  have s4: "?v ! (length ?v - 1) = np4"
    using l1 l2 assms(5) by (simp add: n nth_append)
  have ne: "length ?v \<noteq> 0" using n by simp
  show ?thesis
    unfolding jointnormalwishart_split_nparams_def Let_def dim tk mid s3 s4
    using ne by (simp add: view2_concat [OF assms(1,2)] view2_concat [OF assms(3,4)])
qed

end
